theory Spec2Isabelle
  imports Complex_Main
begin

section \<open>Customer churn prediction page: the data\<close>

text \<open>
  The program is one script, \<^verbatim>\<open>src/app/app.py\<close>, run from top to bottom at every
  interaction. The embedding follows its sections: the input form (lines 143-161), the
  handler of the "Predict Churn" button (lines 169-198), the prediction card (lines
  203-235) and the history section (lines 240-245). An uncaught Python exception stops the
  run where it is raised, so every section returns \<open>error + 'a\<close> and the sections after
  a failure are never evaluated.
\<close>

datatype error =
    KeyError string
  | DuplicateWidgetID string
  | ValueError
  | IndexError
  | TransformError
  | EmptyDataError
  | OSError

text \<open>
  A Python \<^verbatim>\<open>dict\<close> keeps its keys unique and in insertion order: an association
  list. Storing under a key that is present replaces the value and keeps the position;
  reading a key that is absent raises \<^verbatim>\<open>KeyError(key)\<close>.
\<close>

type_synonym 'v dict = "(string \<times> 'v) list"

fun dict_set :: "'v dict \<Rightarrow> string \<Rightarrow> 'v \<Rightarrow> 'v dict" where
  "dict_set [] k v = [(k, v)]"
| "dict_set ((k', v') # d) k v =
     (if k' = k then (k, v) # d else (k', v') # dict_set d k v)"

fun dict_get :: "'v dict \<Rightarrow> string \<Rightarrow> error + 'v" where
  "dict_get [] k = Inl (KeyError k)"
| "dict_get ((k', v') # d) k = (if k' = k then Inr v' else dict_get d k)"

definition keys :: "'v dict \<Rightarrow> string list" where
  "keys d = map fst d"

text \<open>
  A pandas \<^verbatim>\<open>DataFrame\<close>: the column labels and the rows, each row holding one cell
  per column. \<^verbatim>\<open>pd.DataFrame(data, columns=cols)\<close> raises \<^verbatim>\<open>ValueError\<close> when a
  row of \<open>data\<close> has not as many entries as there are labels.
\<close>

record 'a frame =
  columns :: "string list"
  rows :: "'a list list"

definition DataFrame :: "'a list list \<Rightarrow> string list \<Rightarrow> error + 'a frame" where
  "DataFrame data cols =
     (if list_all (\<lambda>r. length r = length cols) data
      then Inr \<lparr>columns = cols, rows = data\<rparr>
      else Inl ValueError)"

text \<open>
  The pickled dictionary \<^verbatim>\<open>saved\<close> of lines 20-26: its objects are opaque to the
  script, which only calls \<^verbatim>\<open>transform\<close>, \<^verbatim>\<open>predict\<close> and \<^verbatim>\<open>predict_proba\<close> on them.
  Each call either raises or returns an array. The optional entries \<^verbatim>\<open>accuracy\<close>,
  \<^verbatim>\<open>confusion_matrix\<close> and \<^verbatim>\<open>report\<close> only feed the sidebar and are left out.
\<close>

record classifier =
  predict :: "real frame \<Rightarrow> error + int list"
  predict_proba :: "real frame \<Rightarrow> error + real list list"

record saved =
  model :: classifier
  num_imputer :: "real frame \<Rightarrow> error + real list list"
  num_scaler :: "real list list \<Rightarrow> error + real list list"
  numeric_cols :: "string list"

section \<open>The feature vector (line 171)\<close>

text \<open>
  \<^verbatim>\<open>[values[c] for c in numeric_cols]\<close>: the lookups run in the order of the column
  list and the first absent key raises.
\<close>

fun lookup_all :: "'v dict \<Rightarrow> string list \<Rightarrow> error + 'v list" where
  "lookup_all values [] = Inr []"
| "lookup_all values (c # cs) =
     (case dict_get values c of
        Inl e \<Rightarrow> Inl e
      | Inr v \<Rightarrow> (case lookup_all values cs of Inl e \<Rightarrow> Inl e | Inr vs \<Rightarrow> Inr (v # vs)))"

definition X_num :: "string list \<Rightarrow> real dict \<Rightarrow> error + real frame" where
  "X_num cols values =
     (case lookup_all values cols of
        Inl e \<Rightarrow> Inl e
      | Inr r \<Rightarrow> DataFrame [r] cols)"

section \<open>The input form (lines 143-161)\<close>

text \<open>
  Python's \<^verbatim>\<open>sub in s\<close> on strings: \<open>sub\<close> occurs in \<open>s\<close> as a contiguous run of
  characters, upper and lower case distinguished.
\<close>

fun startswith :: "string \<Rightarrow> string \<Rightarrow> bool" where
  "startswith s [] = True"
| "startswith [] (p # ps) = False"
| "startswith (c # s) (p # ps) = (c = p \<and> startswith s ps)"

fun str_in :: "string \<Rightarrow> string \<Rightarrow> bool" where
  "str_in sub [] = (sub = [])"
| "str_in sub (c # s) = (startswith (c # s) sub \<or> str_in sub s)"

text \<open>
  What the user does in one run: \<open>entered label\<close> is the number typed into the field
  with that label (\<open>None\<close> when the field was left alone), \<open>button\<close> tells whether
  "Predict Churn" was clicked.

  \<^verbatim>\<open>st.number_input(label, min_value=m, value=d)\<close> returns the number the field holds:
  the default \<open>d\<close> until the user enters another one. A field with a minimum refuses an
  entry below it and keeps its value; a field without \<^verbatim>\<open>min_value\<close> accepts every
  number.
\<close>

record ui =
  entered :: "string \<Rightarrow> real option"
  button :: bool

definition number_input ::
  "(string \<Rightarrow> real option) \<Rightarrow> string \<Rightarrow> real option \<Rightarrow> real \<Rightarrow> real" where
  "number_input ent label min_value val =
     (case ent label of
        None \<Rightarrow> val
      | Some v \<Rightarrow>
          (case min_value of
             None \<Rightarrow> v
           | Some m \<Rightarrow> if v < m then val else v))"

text \<open>The body of the loop, lines 145-161: the first keyword found in the name decides.\<close>

definition field :: "(string \<Rightarrow> real option) \<Rightarrow> string \<Rightarrow> real" where
  "field ent col =
     (if str_in ''Age'' col then number_input ent col (Some 0) 30
      else if str_in ''Tenure'' col then number_input ent col (Some 0) 12
      else if str_in ''Usage'' col then number_input ent col (Some 0) 10
      else if str_in ''Support'' col then number_input ent col (Some 0) 1
      else if str_in ''Delay'' col then number_input ent col (Some 0) 0
      else if str_in ''Spend'' col then number_input ent col (Some 0) 500
      else if str_in ''Interaction'' col then number_input ent col (Some 0) 7
      else number_input ent col None 0)"

text \<open>
  The loop over \<^verbatim>\<open>numeric_cols\<close>, started with \<^verbatim>\<open>values = {}\<close>. Two fields made by
  the same call with the same label are one widget twice, which Streamlit refuses with a
  \<^verbatim>\<open>DuplicateWidgetID\<close> exception; equal names take the same branch, so a name
  that is already a key of \<open>values\<close> raises.
\<close>

fun input_form ::
  "(string \<Rightarrow> real option) \<Rightarrow> string list \<Rightarrow> real dict \<Rightarrow> error + real dict" where
  "input_form ent [] values = Inr values"
| "input_form ent (col # cols) values =
     (if col \<in> set (keys values) then Inl (DuplicateWidgetID col)
      else input_form ent cols (dict_set values col (field ent col)))"

text \<open>The names whose field is created with \<^verbatim>\<open>min_value=0.0\<close>: the first seven branches.\<close>

definition has_min_value :: "string \<Rightarrow> bool" where
  "has_min_value col \<longleftrightarrow>
     str_in ''Age'' col \<or> str_in ''Tenure'' col \<or> str_in ''Usage'' col \<or> str_in ''Support'' col
     \<or> str_in ''Delay'' col \<or> str_in ''Spend'' col \<or> str_in ''Interaction'' col"

section \<open>Imputation, scaling and classification (lines 174-183)\<close>

definition and_then :: "error + 'a \<Rightarrow> ('a \<Rightarrow> error + 'b) \<Rightarrow> error + 'b" where
  "and_then r f = (case r of Inl e \<Rightarrow> Inl e | Inr x \<Rightarrow> f x)"

text \<open>Indexing with a non-negative constant: \<^verbatim>\<open>IndexError\<close> past the end.\<close>

definition get :: "'a list \<Rightarrow> nat \<Rightarrow> error + 'a" where
  "get xs i = (if i < length xs then Inr (xs ! i) else Inl IndexError)"

definition X_final :: "saved \<Rightarrow> real frame \<Rightarrow> error + real frame" where
  "X_final b X =
     and_then (num_imputer b X) (\<lambda>X_num_imp.
     and_then (num_scaler b X_num_imp) (\<lambda>X_num_scaled.
     DataFrame X_num_scaled (numeric_cols b)))"

definition classify :: "classifier \<Rightarrow> real frame \<Rightarrow> error + int \<times> real" where
  "classify m X =
     and_then (predict m X) (\<lambda>labels.
     and_then (get labels 0) (\<lambda>pred.
     and_then (predict_proba m X) (\<lambda>P.
     and_then (get P 0) (\<lambda>p0.
     and_then (get p0 1) (\<lambda>proba.
     Inr (pred, proba))))))"

definition predict_churn :: "saved \<Rightarrow> real dict \<Rightarrow> error + int \<times> real" where
  "predict_churn b values =
     and_then (X_num (numeric_cols b) values) (\<lambda>X.
     and_then (X_final b X) (classify (model b)))"

section \<open>The prediction history (lines 187-197 and 240-245)\<close>

text \<open>
  A cell of the history table is a number or is missing (pandas' \<^verbatim>\<open>NaN\<close>, an empty
  field of the file); the label \<^verbatim>\<open>int(pred)\<close> is a number like the others. The
  printing and parsing of floating-point numbers is not modelled.
\<close>

datatype cell = Num real | NaN

text \<open>
  The history file holds text, which the model does not spell out. \<open>Written t\<close> is the
  text that a complete \<^verbatim>\<open>hist.to_csv(HISTORY_FILE, index=False)\<close> writes for the table
  \<open>t\<close>: its header line and one line for each row. \<open>Other x\<close> is any other content
  (an empty file, a file cut short, a file of another origin), known only by what
  \<^verbatim>\<open>pd.read_csv\<close> makes of it: \<open>x\<close> is the exception raised or the table returned.
\<close>

datatype content = Written "cell frame" | Other "error + cell frame"

text \<open>
  What a write to the file does: it completes; or the file cannot be opened for writing
  and stays as it is; or the write fails after the file was opened (a full disk) and
  leaves behind the content given.
\<close>

datatype write_outcome = Completes | Refuses | Cuts "error + cell frame"

text \<open>
  The file and its environment. \<open>history_file\<close> is \<open>None\<close> when the file does not
  exist, \<open>disk\<close> tells what the next write does, and \<open>reads_back t\<close> is what
  \<^verbatim>\<open>pd.read_csv\<close> makes of the text written for \<open>t\<close>. pandas gives most tables back as
  they were written but not all of them (an empty column label comes back as
  \<^verbatim>\<open>Unnamed: n\<close>), so the model leaves \<open>reads_back\<close> to the environment and every
  statement that needs a table to come back unchanged says so.
\<close>

record store =
  history_file :: "content option"
  disk :: write_outcome
  reads_back :: "cell frame \<Rightarrow> error + cell frame"

definition path_exists :: "store \<Rightarrow> bool" where
  "path_exists s \<longleftrightarrow> history_file s \<noteq> None"

definition read_csv :: "store \<Rightarrow> error + cell frame" where
  "read_csv s =
     (case history_file s of
        None \<Rightarrow> Inl OSError
      | Some (Written t) \<Rightarrow> reads_back s t
      | Some (Other x) \<Rightarrow> x)"

text \<open>
  \<^verbatim>\<open>hist.to_csv(HISTORY_FILE, index=False)\<close>: the exception raised, if any, and the file
  left behind.
\<close>

definition to_csv :: "cell frame \<Rightarrow> store \<Rightarrow> error option \<times> store" where
  "to_csv hist s =
     (case disk s of
        Completes \<Rightarrow> (None, s\<lparr>history_file := Some (Written hist)\<rparr>)
      | Refuses \<Rightarrow> (Some OSError, s)
      | Cuts left \<Rightarrow> (Some OSError, s\<lparr>history_file := Some (Other left)\<rparr>))"

text \<open>Lines 187-189: \<^verbatim>\<open>row = values.copy()\<close> and the two stores into it.\<close>

definition history_row :: "real dict \<Rightarrow> int \<Rightarrow> real \<Rightarrow> cell dict" where
  "history_row values pred proba =
     dict_set (dict_set (map (\<lambda>(k, v). (k, Num v)) values)
       ''Prediction'' (Num (of_int pred))) ''Churn_Probability'' (Num proba)"

text \<open>\<^verbatim>\<open>pd.DataFrame([row])\<close>: the keys of the dictionary are the columns, in its order.\<close>

definition DataFrame_records :: "cell dict \<Rightarrow> cell frame" where
  "DataFrame_records row = \<lparr>columns = keys row, rows = [map snd row]\<rparr>"

text \<open>
  \<^verbatim>\<open>pd.concat([a, b], ignore_index=True)\<close> joins on the column labels: the columns of
  \<open>a\<close>, then those of \<open>b\<close> that \<open>a\<close> has not; every row is laid out again under these
  labels, a cell it has no value for being \<^verbatim>\<open>NaN\<close>.
\<close>

definition reindex :: "string list \<Rightarrow> string list \<Rightarrow> cell list \<Rightarrow> cell list" where
  "reindex old new r = map (\<lambda>c. case map_of (zip old r) c of None \<Rightarrow> NaN | Some v \<Rightarrow> v) new"

definition concat_frames :: "cell frame \<Rightarrow> cell frame \<Rightarrow> cell frame" where
  "concat_frames a b =
     (let cols = columns a @ filter (\<lambda>c. c \<notin> set (columns a)) (columns b)
      in \<lparr>columns = cols,
          rows = map (reindex (columns a) cols) (rows a) @ map (reindex (columns b) cols) (rows b)\<rparr>)"

text \<open>Lines 191-197.\<close>

definition save_history :: "cell dict \<Rightarrow> store \<Rightarrow> error option \<times> store" where
  "save_history row s =
     (if path_exists s
      then (case read_csv s of
              Inl e \<Rightarrow> (Some e, s)
            | Inr hist \<Rightarrow> to_csv (concat_frames hist (DataFrame_records row)) s)
      else to_csv (DataFrame_records row) s)"

section \<open>The page\<close>

datatype card = LikelyChurn real | NotLikelyChurn real | FillInDetails

datatype history_view = Table "cell frame" | NoPredictionsYet

record page =
  pred :: "int option"
  proba :: "real option"
  saved_info :: bool
  prediction_card :: card
  history :: history_view

text \<open>
  What a run that reaches its end has rendered below the form: the values of \<^verbatim>\<open>pred\<close>
  and \<^verbatim>\<open>proba\<close> (\<open>None\<close> as long as no prediction was made), the notice of line 198
  that the prediction was saved, the prediction card and the history section.

  The card, lines 203-235, is drawn from \<^verbatim>\<open>prediction_made\<close>, \<^verbatim>\<open>pred\<close> and \<^verbatim>\<open>proba\<close>.
\<close>

definition show_card :: "(int \<times> real) option \<Rightarrow> card" where
  "show_card made =
     (case made of
        None \<Rightarrow> FillInDetails
      | Some (p, q) \<Rightarrow> if p = 1 then LikelyChurn q else NotLikelyChurn q)"

text \<open>Lines 240-245.\<close>

definition history_section :: "store \<Rightarrow> error + history_view" where
  "history_section s =
     (if path_exists s then and_then (read_csv s) (\<lambda>hist. Inr (Table hist))
      else Inr NoPredictionsYet)"

definition render :: "(int \<times> real) option \<Rightarrow> store \<Rightarrow> error + page" where
  "render made s =
     and_then (history_section s) (\<lambda>h.
     Inr \<lparr>pred = map_option fst made, proba = map_option snd made,
          saved_info = (made \<noteq> None),
          prediction_card = show_card made, history = h\<rparr>)"

text \<open>
  One run of the script after the bundle is loaded: the page it renders, or the exception
  that stopped it, and the history file it leaves.
\<close>

definition app :: "saved \<Rightarrow> ui \<Rightarrow> store \<Rightarrow> (error + page) \<times> store" where
  "app b u s =
     (case input_form (entered u) (numeric_cols b) [] of
        Inl e \<Rightarrow> (Inl e, s)
      | Inr values \<Rightarrow>
          if button u then
            (case predict_churn b values of
               Inl e \<Rightarrow> (Inl e, s)
             | Inr (p, q) \<Rightarrow>
                 (case save_history (history_row values p q) s of
                    (Some e, s') \<Rightarrow> (Inl e, s')
                  | (None, s') \<Rightarrow> (render (Some (p, q)) s', s')))
          else (render None s, s))"

text \<open>
  The rows the history section has to show, each as the dictionary from column label to
  cell: none when the file does not exist.
\<close>

definition read_all :: "store \<Rightarrow> error + cell dict list" where
  "read_all s =
     and_then (history_section s) (\<lambda>h.
       case h of
         NoPredictionsYet \<Rightarrow> Inr []
       | Table hist \<Rightarrow> Inr (map (zip (columns hist)) (rows hist)))"

section \<open>The contract of the pickled objects\<close>

text \<open>
  The imputer, the scaler and the classifier are pickled objects made by a training step
  that is not under \<^verbatim>\<open>src/\<close>; the script only calls them. What they answer is
  taken from the specification (section 3).
\<close>

text \<open>An array of one row and \<open>n\<close> columns.\<close>

definition one_row :: "'a list list \<Rightarrow> nat \<Rightarrow> bool" where
  "one_row A n \<longleftrightarrow> length A = 1 \<and> list_all (\<lambda>r. length r = n) A"

text \<open>
  Modelled from the spec: the fitted imputer and scaler, which are not under \<^verbatim>\<open>src/\<close>.
  Each has the capability \<open>transform(row) \<rightarrow> row\<close>: given the single row under
  the columns of \<open>feature_order\<close>, it answers with a single row of as many values.
\<close>

definition transform_contract :: "saved \<Rightarrow> bool" where
  "transform_contract b \<longleftrightarrow>
     (\<forall>X. columns X = numeric_cols b \<and> one_row (rows X) (length (numeric_cols b)) \<longrightarrow>
        (\<exists>Y. num_imputer b X = Inr Y \<and> one_row Y (length (numeric_cols b)))) \<and>
     (\<forall>Y. one_row Y (length (numeric_cols b)) \<longrightarrow>
        (\<exists>Z. num_scaler b Y = Inr Z \<and> one_row Z (length (numeric_cols b))))"

text \<open>
  Modelled from the spec: the trained classifier, which is not under \<^verbatim>\<open>src/\<close>. It
  has the capabilities \<open>predict(vector) \<rightarrow> label\<close>, with \<open>label: 0|1\<close>, and
  \<open>predict_probability(vector) \<rightarrow> [0,1]\<close>: for the single row the script submits,
  \<^verbatim>\<open>predict\<close> answers with one label and \<^verbatim>\<open>predict_proba\<close> with one row of two class
  probabilities, the second being that of the positive class.
\<close>

definition classifier_contract :: "saved \<Rightarrow> bool" where
  "classifier_contract b \<longleftrightarrow>
     (\<forall>X. columns X = numeric_cols b \<and> one_row (rows X) (length (numeric_cols b)) \<longrightarrow>
        (\<exists>l p0 p1. predict (model b) X = Inr [l] \<and> (l = 0 \<or> l = 1) \<and>
           predict_proba (model b) X = Inr [[p0, p1]] \<and>
           0 \<le> p0 \<and> p0 \<le> 1 \<and> 0 \<le> p1 \<and> p1 \<le> 1))"

section \<open>A concrete bundle and session\<close>

text \<open>
  The bundle of the scenarios of the specification (section 8): three features, imputer
  and scaler leaving the row as it is, a classifier answering label 1 with probability
  0.82 for the positive class. The user enters 45, 2 and 1 and clicks the button.
\<close>

definition scenario_saved :: saved where
  "scenario_saved =
     \<lparr>model = \<lparr>predict = (\<lambda>X. Inr [1]), predict_proba = (\<lambda>X. Inr [[0.18, 0.82]])\<rparr>,
      num_imputer = (\<lambda>X. Inr (rows X)),
      num_scaler = (\<lambda>A. Inr A),
      numeric_cols = [''Age'', ''Tenure'', ''Usage'']\<rparr>"

definition scenario_ui :: ui where
  "scenario_ui =
     \<lparr>entered = (\<lambda>l. if l = ''Age'' then Some 45 else if l = ''Tenure'' then Some 2
                    else if l = ''Usage'' then Some 1 else None),
      button = True\<rparr>"

definition scenario_values :: "real dict" where
  "scenario_values = [(''Age'', 45), (''Tenure'', 2), (''Usage'', 1)]"

definition scenario_X :: "real frame" where
  "scenario_X = \<lparr>columns = [''Age'', ''Tenure'', ''Usage''], rows = [[45, 2, 1]]\<rparr>"

definition scenario_history :: "cell frame" where
  "scenario_history =
     \<lparr>columns = [''Age'', ''Tenure'', ''Usage'', ''Prediction'', ''Churn_Probability''],
      rows = [[Num 45, Num 2, Num 1, Num 1, Num 0.82]]\<rparr>"

definition failing_scaler :: saved where
  "failing_scaler = scenario_saved\<lparr>num_scaler := (\<lambda>A. Inl TransformError)\<rparr>"

text \<open>The record of the second prediction of the scenario: label 0, probability 0.10.\<close>

definition second_row :: "cell dict" where
  "second_row =
     [(''Age'', Num 30), (''Tenure'', Num 12), (''Usage'', Num 10),
      (''Prediction'', Num 0), (''Churn_Probability'', Num 0.10)]"

text \<open>The bundle of the scenario with one feature only, whose name is \<open>Prediction\<close>.\<close>

definition prediction_named :: saved where
  "prediction_named = scenario_saved\<lparr>numeric_cols := [''Prediction'']\<rparr>"

text \<open>Sessions in which the user types one number into every field and clicks the button.\<close>

definition types_five :: ui where
  "types_five = \<lparr>entered = (\<lambda>l. Some 5), button = True\<rparr>"

definition types_minus_five :: ui where
  "types_minus_five = \<lparr>entered = (\<lambda>l. Some (- 5)), button = True\<rparr>"

text \<open>
  An environment in which \<^verbatim>\<open>pd.read_csv\<close> gives every written table back as it was.
  pandas does so for the tables of the scenarios below, whose column labels are distinct
  and not empty.
\<close>

definition as_written :: "cell frame \<Rightarrow> error + cell frame" where
  "as_written t = Inr t"

definition scenario_store :: "content option \<Rightarrow> write_outcome \<Rightarrow> store" where
  "scenario_store f d = \<lparr>history_file = f, disk = d, reads_back = as_written\<rparr>"

text \<open>
  The entries of the scenario in another insertion order, and a bundle that tells the
  frames apart: its imputer and its classifier answer as in the scenario for the frame
  with the columns \<open>Age\<close>, \<open>Tenure\<close>, \<open>Usage\<close> and the row \<open>45, 2, 1\<close>, and
  otherwise raise or answer label 0.
\<close>

definition shuffled_values :: "real dict" where
  "shuffled_values = [(''Usage'', 1), (''Age'', 45), (''Tenure'', 2)]"

definition order_probe :: saved where
  "order_probe =
     \<lparr>model = \<lparr>predict = (\<lambda>X. Inr [if X = scenario_X then 1 else 0]),
               predict_proba = (\<lambda>X. Inr [[0.18, 0.82]])\<rparr>,
      num_imputer = (\<lambda>X. if X = scenario_X then Inr (rows X) else Inl TransformError),
      num_scaler = (\<lambda>A. Inr A),
      numeric_cols = [''Age'', ''Tenure'', ''Usage'']\<rparr>"

section \<open>Dictionaries and the feature vector\<close>

lemma dict_get_map_of:
  "dict_get d k = (case map_of d k of None \<Rightarrow> Inl (KeyError k) | Some v \<Rightarrow> Inr v)"
  by (induction d) auto

lemma lookup_all_present:
  "\<forall>c\<in>set cs. map_of d c \<noteq> None \<Longrightarrow> lookup_all d cs = Inr (map (\<lambda>c. the (map_of d c)) cs)"
  by (induction cs) (auto simp: dict_get_map_of)

lemma keys_map_of: "k \<in> set (keys d) \<longleftrightarrow> map_of d k \<noteq> None"
  by (induction d) (auto simp: keys_def)

lemma dict_get_cong: "map_of d' = map_of d \<Longrightarrow> dict_get d' k = dict_get d k"
  by (simp add: dict_get_map_of)

lemma lookup_all_cong:
  assumes "map_of d' = map_of d"
  shows "lookup_all d' cs = lookup_all d cs"
proof (induction cs)
  case Nil
  show ?case by simp
next
  case (Cons c cs)
  then show ?case by (simp add: dict_get_cong [OF assms] split: sum.splits)
qed

lemma dict_get_missing: "k \<notin> set (keys d) \<Longrightarrow> dict_get d k = Inl (KeyError k)"
  by (simp add: dict_get_map_of keys_map_of)

lemma dict_get_present: "k \<in> set (keys d) \<Longrightarrow> \<exists>v. dict_get d k = Inr v"
  by (auto simp: dict_get_map_of keys_map_of)

lemma lookup_all_missing:
  "\<not> set cs \<subseteq> set (keys d) \<Longrightarrow>
   \<exists>m. List.find (\<lambda>c. c \<notin> set (keys d)) cs = Some m \<and> lookup_all d cs = Inl (KeyError m)"
proof (induction cs)
  case Nil
  then show ?case by simp
next
  case (Cons c cs)
  show ?case
  proof (cases "c \<in> set (keys d)")
    case False
    then show ?thesis by (simp add: dict_get_missing)
  next
    case True
    then obtain v where v: "dict_get d c = Inr v"
      using dict_get_present by blast
    from True Cons.prems have "\<not> set cs \<subseteq> set (keys d)" by simp
    from Cons.IH [OF this] obtain m
      where "List.find (\<lambda>c. c \<notin> set (keys d)) cs = Some m" "lookup_all d cs = Inl (KeyError m)"
      by blast
    with True v show ?thesis by simp
  qed
qed

lemma keys_append: "keys (d @ e) = keys d @ keys e"
  by (simp add: keys_def)

lemma dict_set_new: "k \<notin> set (keys d) \<Longrightarrow> dict_set d k v = d @ [(k, v)]"
  by (induction d) (auto simp: keys_def)

lemma map_of_graph: "c \<in> set cs \<Longrightarrow> map_of (map (\<lambda>c. (c, f c)) cs) c = Some (f c)"
  by (induction cs) auto

lemma keys_graph: "keys (map (\<lambda>c. (c, f c)) cs) = cs"
  by (simp add: keys_def comp_def)

lemma DataFrame_single:
  "DataFrame [r] cols =
     (if length r = length cols then Inr \<lparr>columns = cols, rows = [r]\<rparr> else Inl ValueError)"
  by (simp add: DataFrame_def)

lemma DataFrame_Inr: "DataFrame data cols = Inr f \<Longrightarrow> columns f = cols \<and> rows f = data"
  by (cases "list_all (\<lambda>r. length r = length cols) data") (auto simp: DataFrame_def)

lemma DataFrame_one_row:
  "one_row A (length cols) \<Longrightarrow> DataFrame A cols = Inr \<lparr>columns = cols, rows = A\<rparr>"
  by (simp add: one_row_def DataFrame_def)

lemma one_row_single: "one_row [r] n \<longleftrightarrow> length r = n"
  by (simp add: one_row_def)

lemma X_num_present:
  assumes "set cols \<subseteq> set (keys values)"
  shows "X_num cols values = Inr \<lparr>columns = cols, rows = [map (\<lambda>c. the (map_of values c)) cols]\<rparr>"
proof -
  from assms have "\<forall>c\<in>set cols. map_of values c \<noteq> None"
    by (auto simp: keys_map_of)
  then show ?thesis
    by (simp add: X_num_def lookup_all_present DataFrame_single)
qed

lemma X_num_cong: "map_of values' = map_of values \<Longrightarrow> X_num cols values' = X_num cols values"
  unfolding X_num_def by (simp only: lookup_all_cong [of "values'" "values" cols])

section \<open>The input form\<close>

lemma input_form_Inr_iff:
  "input_form ent cols acc = Inr values \<longleftrightarrow>
     distinct cols \<and> set cols \<inter> set (keys acc) = {} \<and> values = acc @ map (\<lambda>c. (c, field ent c)) cols"
proof (induction cols arbitrary: acc)
  case Nil
  show ?case by auto
next
  case (Cons col cols)
  show ?case
  proof (cases "col \<in> set (keys acc)")
    case True
    then show ?thesis by simp
  next
    case False
    have "keys (acc @ [(col, field ent col)]) = keys acc @ [col]"
      by (simp add: keys_def)
    with False show ?thesis
      by (auto simp: dict_set_new Cons.IH)
  qed
qed

lemma input_form_values:
  "input_form ent cols [] = Inr values \<longleftrightarrow> distinct cols \<and> values = map (\<lambda>c. (c, field ent c)) cols"
  by (simp add: input_form_Inr_iff keys_def)

lemma X_num_input_form:
  assumes "input_form ent cols [] = Inr values"
  shows "X_num cols values = Inr \<lparr>columns = cols, rows = [map (field ent) cols]\<rparr>"
proof -
  from assms have v: "values = map (\<lambda>c. (c, field ent c)) cols"
    by (simp add: input_form_values)
  then have "set cols \<subseteq> set (keys values)"
    by (simp add: keys_graph)
  from X_num_present [OF this]
  have "X_num cols values = Inr \<lparr>columns = cols, rows = [map (\<lambda>c. the (map_of values c)) cols]\<rparr>" .
  moreover have "map (\<lambda>c. the (map_of values c)) cols = map (field ent) cols"
    by (simp add: v map_of_graph)
  ultimately show ?thesis by simp
qed

lemma number_input_min: "m \<le> d \<Longrightarrow> m \<le> number_input ent label (Some m) d"
  by (simp add: number_input_def split: option.splits)

lemma field_nonneg: "has_min_value col \<Longrightarrow> 0 \<le> field ent col"
  unfolding field_def has_min_value_def by (auto simp: number_input_min)

lemma field_no_min: "\<not> has_min_value col \<Longrightarrow> ent col = Some v \<Longrightarrow> field ent col = v"
  by (simp add: field_def has_min_value_def number_input_def)

section \<open>The steps of the pipeline\<close>

lemma and_then_simps [simp]: "and_then (Inl e) f = Inl e" "and_then (Inr x) f = f x"
  by (simp_all add: and_then_def)

lemma get_Cons_0: "get (x # xs) 0 = Inr x"
  by (simp add: get_def)

lemma predict_churn_unfold:
  "X_num (numeric_cols b) values = Inr X \<Longrightarrow>
   predict_churn b values = and_then (X_final b X) (classify (model b))"
  by (simp add: predict_churn_def)

section \<open>Tables and the history file\<close>

lemma reindex_same:
  assumes "distinct cs" and "length r = length cs"
  shows "reindex cs cs r = r"
proof (rule nth_equalityI)
  show "length (reindex cs cs r) = length r"
    by (simp add: reindex_def assms(2))
next
  fix i assume "i < length (reindex cs cs r)"
  then have i: "i < length r"
    by (simp add: reindex_def assms(2))
  with assms have "map_of (zip cs r) (cs ! i) = Some (r ! i)"
    by (simp add: map_of_zip_nth)
  with i show "reindex cs cs r ! i = r ! i"
    by (simp add: reindex_def assms(2))
qed

lemma filter_known_columns: "set ks \<subseteq> set cs \<Longrightarrow> filter (\<lambda>c. c \<notin> set cs) ks = []"
  by (induction ks) auto

lemma zip_reindex_row:
  "map_of (zip cs (reindex (keys row) cs (map snd row))) k =
     (if k \<in> set cs then Some (case map_of row k of None \<Rightarrow> NaN | Some v \<Rightarrow> v) else None)"
  by (simp add: reindex_def keys_def zip_map_fst_snd map_of_zip_map)

lemma concat_same_columns:
  assumes "distinct (columns hist)"
    and "\<forall>r\<in>set (rows hist). length r = length (columns hist)"
    and "set (keys row) \<subseteq> set (columns hist)"
  shows "concat_frames hist (DataFrame_records row) =
     \<lparr>columns = columns hist,
      rows = rows hist @ [reindex (keys row) (columns hist) (map snd row)]\<rparr>"
proof -
  have "map (reindex (columns hist) (columns hist)) (rows hist) = rows hist"
    using assms(1,2) by (simp add: reindex_same map_idI)
  then show ?thesis
    by (simp add: concat_frames_def Let_def DataFrame_records_def filter_known_columns [OF assms(3)])
qed

lemma keys_Num: "keys (map (\<lambda>(k, v). (k, Num v)) d) = keys d"
  by (induction d) (auto simp: keys_def)

lemma history_row_fresh:
  assumes "''Prediction'' \<notin> set (keys values)" and "''Churn_Probability'' \<notin> set (keys values)"
  shows "history_row values p q =
     map (\<lambda>(k, v). (k, Num v)) values @ [(''Prediction'', Num (of_int p)), (''Churn_Probability'', Num q)]"
proof -
  let ?d = "map (\<lambda>(k, v). (k, Num v)) values"
  have 1: "dict_set ?d ''Prediction'' (Num (of_int p)) = ?d @ [(''Prediction'', Num (of_int p))]"
    using assms(1) by (simp add: dict_set_new keys_Num)
  have "''Churn_Probability'' \<notin> set (keys (?d @ [(''Prediction'', Num (of_int p))]))"
    using assms(2) by (simp add: keys_append keys_Num) (simp add: keys_def)
  then show ?thesis
    by (simp add: history_row_def 1 dict_set_new)
qed

lemma path_exists_None: "history_file s = None \<Longrightarrow> \<not> path_exists s"
  by (simp add: path_exists_def)

lemma to_csv_Completes:
  "disk s = Completes \<Longrightarrow> to_csv hist s = (None, s\<lparr>history_file := Some (Written hist)\<rparr>)"
  by (simp add: to_csv_def)

lemma to_csv_fails:
  "disk s \<noteq> Completes \<Longrightarrow>
   to_csv hist s =
     (Some OSError,
      case disk s of
        Completes \<Rightarrow> s
      | Refuses \<Rightarrow> s
      | Cuts left \<Rightarrow> s\<lparr>history_file := Some (Other left)\<rparr>)"
  by (cases "disk s") (simp_all add: to_csv_def)

lemma save_history_unreadable:
  "history_file s \<noteq> None \<Longrightarrow> read_csv s = Inl e \<Longrightarrow> save_history row s = (Some e, s)"
  by (simp add: save_history_def path_exists_def)

lemma save_history_write_fails:
  assumes "history_file s \<noteq> None \<longrightarrow> (\<exists>hist. read_csv s = Inr hist)"
    and "disk s \<noteq> Completes"
  shows "save_history row s =
     (Some OSError,
      case disk s of
        Completes \<Rightarrow> s
      | Refuses \<Rightarrow> s
      | Cuts left \<Rightarrow> s\<lparr>history_file := Some (Other left)\<rparr>)"
proof (cases "history_file s")
  case None
  then show ?thesis
    by (simp add: save_history_def path_exists_def to_csv_fails [OF assms(2)])
next
  case (Some c)
  with assms(1) obtain hist where "read_csv s = Inr hist"
    by auto
  with Some show ?thesis
    by (simp add: save_history_def path_exists_def to_csv_fails [OF assms(2)])
qed

lemma save_history_new:
  assumes "history_file s = None" and "disk s = Completes"
  shows "save_history row s =
     (None, s\<lparr>history_file := Some (Written (DataFrame_records row))\<rparr>)"
  using assms by (simp add: save_history_def path_exists_def to_csv_Completes)

lemma save_history_existing:
  assumes "history_file s \<noteq> None" and "read_csv s = Inr hist" and "disk s = Completes"
  shows "save_history row s =
     (None, s\<lparr>history_file := Some (Written (concat_frames hist (DataFrame_records row)))\<rparr>)"
  using assms by (simp add: save_history_def path_exists_def to_csv_Completes)

lemma read_all_None: "history_file s = None \<Longrightarrow> read_all s = Inr []"
  by (simp add: read_all_def history_section_def path_exists_def)

lemma read_all_Some:
  "history_file s \<noteq> None \<Longrightarrow> read_csv s = Inr hist \<Longrightarrow>
   read_all s = Inr (map (zip (columns hist)) (rows hist))"
  by (simp add: read_all_def history_section_def path_exists_def)

lemma read_all_unreadable:
  "history_file s \<noteq> None \<Longrightarrow> read_csv s = Inl e \<Longrightarrow> read_all s = Inl e"
  by (simp add: read_all_def history_section_def path_exists_def)

section \<open>One run of the script\<close>

lemma render_Some:
  "history_file s \<noteq> None \<Longrightarrow> read_csv s = Inr hist \<Longrightarrow>
   render made s = Inr \<lparr>pred = map_option fst made, proba = map_option snd made,
                        saved_info = (made \<noteq> None),
                        prediction_card = show_card made, history = Table hist\<rparr>"
  by (simp add: render_def history_section_def path_exists_def)

lemma app_inference_failed:
  assumes "input_form (entered u) (numeric_cols b) [] = Inr values" and "button u"
    and "predict_churn b values = Inl e"
  shows "app b u s = (Inl e, s)"
  using assms by (simp add: app_def)

lemma app_write_failed:
  assumes "input_form (entered u) (numeric_cols b) [] = Inr values"
    and "button u"
    and "predict_churn b values = Inr (p, q)"
    and "history_file s \<noteq> None \<longrightarrow> (\<exists>hist. read_csv s = Inr hist)"
    and "disk s \<noteq> Completes"
  shows "app b u s =
     (Inl OSError,
      case disk s of
        Completes \<Rightarrow> s
      | Refuses \<Rightarrow> s
      | Cuts left \<Rightarrow> s\<lparr>history_file := Some (Other left)\<rparr>)"
  using assms(1,2,3) by (simp add: app_def save_history_write_fails [OF assms(4,5)])

lemma app_saved:
  assumes "input_form (entered u) (numeric_cols b) [] = Inr values"
    and "button u"
    and "predict_churn b values = Inr (p, q)"
    and "save_history (history_row values p q) s = (None, s')"
  shows "app b u s = (render (Some (p, q)) s', s')"
  using assms by (simp add: app_def)

lemma scenario_store_simps [simp]:
  "history_file (scenario_store f d) = f"
  "disk (scenario_store f d) = d"
  "reads_back (scenario_store f d) = as_written"
  by (simp_all add: scenario_store_def)

section \<open>The scenario, evaluated\<close>

lemma scenario_cols: "numeric_cols scenario_saved = [''Age'', ''Tenure'', ''Usage'']"
  by (simp add: scenario_saved_def)

lemma failing_scaler_cols: "numeric_cols failing_scaler = [''Age'', ''Tenure'', ''Usage'']"
  by (simp add: failing_scaler_def scenario_saved_def)

lemma scenario_input_form:
  "input_form (entered scenario_ui) [''Age'', ''Tenure'', ''Usage''] [] = Inr scenario_values"
  by (simp add: scenario_ui_def scenario_values_def field_def number_input_def keys_def)

lemma scenario_X_num: "X_num [''Age'', ''Tenure'', ''Usage''] scenario_values = Inr scenario_X"
  by (simp add: X_num_def scenario_values_def scenario_X_def DataFrame_def)

lemma scenario_clicked:
  "input_form (entered scenario_ui) (numeric_cols scenario_saved) [] = Inr scenario_values"
  "button scenario_ui"
  by (simp_all only: scenario_cols scenario_input_form) (simp add: scenario_ui_def)

lemma scenario_predict_churn: "predict_churn scenario_saved scenario_values = Inr (1, 0.82)"
proof -
  have "X_final scenario_saved scenario_X = Inr scenario_X"
    by (simp add: X_final_def scenario_saved_def scenario_X_def DataFrame_def)
  moreover have "classify (model scenario_saved) scenario_X = Inr (1, 0.82)"
    by (simp add: classify_def scenario_saved_def get_def)
  ultimately show ?thesis
    by (simp add: predict_churn_def scenario_cols scenario_X_num)
qed

lemma and_then_assoc: "and_then (and_then r f) g = and_then r (\<lambda>x. and_then (f x) g)"
  by (cases r) simp_all

lemma classify_fun:
  "classify m =
     (\<lambda>X. and_then (predict m X) (\<lambda>labels.
          and_then (get labels 0) (\<lambda>l.
          and_then (predict_proba m X) (\<lambda>P.
          and_then (get P 0) (\<lambda>p0.
          and_then (get p0 1) (\<lambda>q.
          Inr (l, q)))))))"
  by (rule ext) (simp only: classify_def)

lemma scenario_X_literal:
  "\<lparr>columns = [''Age'', ''Tenure'', ''Usage''], rows = [[45, 2, 1]]\<rparr> = scenario_X"
  by (simp add: scenario_X_def)

section \<open>The feature vector follows the declared column order\<close>

text \<open>
  Claim C1. When the mapping of entered values has a value for every name of the column
  list, the single-row frame built on line 171 carries exactly that list as its columns
  and, position by position, the value stored under each name. It depends on the mapping
  only: two dictionaries holding the same values in another insertion order give the same
  frame. With the column list of the bundle, this very frame is the argument of the
  imputer's \<^verbatim>\<open>transform\<close>; the scaler's \<^verbatim>\<open>transform\<close> gets what the imputer answered;
  \<^verbatim>\<open>predict\<close> and \<^verbatim>\<open>predict_proba\<close> both get the frame made of what the scaler answered,
  labelled with the column list again; nothing else is handed to them.
\<close>

theorem feature_vector_in_feature_order:
  assumes "set cols \<subseteq> set (keys values)"
  shows "X_num cols values = Inr \<lparr>columns = cols, rows = [map (\<lambda>c. the (map_of values c)) cols]\<rparr>
       \<and> (\<forall>values'. map_of values' = map_of values \<longrightarrow> X_num cols values' = X_num cols values)
       \<and> (cols = numeric_cols b \<longrightarrow>
            predict_churn b values =
              and_then
                (num_imputer b \<lparr>columns = cols, rows = [map (\<lambda>c. the (map_of values c)) cols]\<rparr>)
                (\<lambda>X_num_imp.
              and_then (num_scaler b X_num_imp) (\<lambda>X_num_scaled.
              and_then (DataFrame X_num_scaled cols) (\<lambda>X_final.
              and_then (predict (model b) X_final) (\<lambda>labels.
              and_then (get labels 0) (\<lambda>l.
              and_then (predict_proba (model b) X_final) (\<lambda>P.
              and_then (get P 0) (\<lambda>p0.
              and_then (get p0 1) (\<lambda>q.
              Inr (l, q))))))))))
       \<and> (\<forall>A Xf. DataFrame A cols = Inr Xf \<longrightarrow> columns Xf = cols \<and> rows Xf = A)"
proof (intro conjI allI impI)
  show "X_num cols values = Inr \<lparr>columns = cols, rows = [map (\<lambda>c. the (map_of values c)) cols]\<rparr>"
    by (rule X_num_present [OF assms])
next
  fix values' :: "real dict"
  assume "map_of values' = map_of values"
  then show "X_num cols values' = X_num cols values"
    by (rule X_num_cong)
next
  let ?X = "\<lparr>columns = cols, rows = [map (\<lambda>c. the (map_of values c)) cols]\<rparr>"
  assume c: "cols = numeric_cols b"
  have "X_num (numeric_cols b) values = Inr ?X"
    using X_num_present [OF assms] by (simp only: c)
  then have "predict_churn b values = and_then (X_final b ?X) (classify (model b))"
    by (rule predict_churn_unfold)
  also have "\<dots> =
      and_then (num_imputer b ?X) (\<lambda>X_num_imp.
      and_then (num_scaler b X_num_imp) (\<lambda>X_num_scaled.
      and_then (DataFrame X_num_scaled cols) (classify (model b))))"
    by (simp only: X_final_def and_then_assoc c)
  finally show "predict_churn b values =
      and_then (num_imputer b ?X) (\<lambda>X_num_imp.
      and_then (num_scaler b X_num_imp) (\<lambda>X_num_scaled.
      and_then (DataFrame X_num_scaled cols) (\<lambda>X_final.
      and_then (predict (model b) X_final) (\<lambda>labels.
      and_then (get labels 0) (\<lambda>l.
      and_then (predict_proba (model b) X_final) (\<lambda>P.
      and_then (get P 0) (\<lambda>p0.
      and_then (get p0 1) (\<lambda>q.
      Inr (l, q)))))))))"
    by (simp only: classify_fun)
next
  fix A Xf
  assume "DataFrame A cols = Inr Xf"
  then show "columns Xf = cols"
    by (simp add: DataFrame_Inr)
next
  fix A Xf
  assume "DataFrame A cols = Inr Xf"
  then show "rows Xf = A"
    by (simp add: DataFrame_Inr)
qed

theorem feature_vector_in_feature_order_witness:
  "set (numeric_cols order_probe) \<subseteq> set (keys shuffled_values)
   \<and> X_num (numeric_cols order_probe) shuffled_values = Inr scenario_X
   \<and> predict_churn order_probe shuffled_values = Inr (1, 0.82)"
proof -
  have c: "numeric_cols order_probe = [''Age'', ''Tenure'', ''Usage'']"
    by (simp add: order_probe_def)
  have k: "set (numeric_cols order_probe) \<subseteq> set (keys shuffled_values)"
    by (simp add: c shuffled_values_def keys_def)
  have m: "map (\<lambda>c. the (map_of shuffled_values c)) (numeric_cols order_probe) = [45, 2, 1]"
    by (simp add: c shuffled_values_def)
  note t = feature_vector_in_feature_order [OF k, of order_probe, unfolded m]
  from t [THEN conjunct1]
  have x: "X_num (numeric_cols order_probe) shuffled_values = Inr scenario_X"
    by (simp only: c scenario_X_literal)
  have i: "num_imputer order_probe scenario_X = Inr [[45, 2, 1]]"
    by (simp add: order_probe_def scenario_X_def)
  have s: "num_scaler order_probe [[45, 2, 1]] = Inr [[45, 2, 1]]"
    by (simp add: order_probe_def)
  have d: "DataFrame [[45, 2, 1 :: real]] [''Age'', ''Tenure'', ''Usage''] = Inr scenario_X"
    by (simp add: DataFrame_def scenario_X_def)
  have p: "predict (model order_probe) scenario_X = Inr [1]"
    "predict_proba (model order_probe) scenario_X = Inr [[0.18, 0.82]]"
    by (simp_all add: order_probe_def)
  have g: "get [1 :: int] 0 = Inr 1" "get [[0.18, 0.82 :: real]] 0 = Inr [0.18, 0.82]"
    "get [0.18, 0.82 :: real] 1 = Inr 0.82"
    by (simp_all add: get_def)
  from t [THEN conjunct2, THEN conjunct2, THEN conjunct1, rule_format, OF refl]
  have "predict_churn order_probe shuffled_values = Inr (1, 0.82)"
    by (simp only: c scenario_X_literal i s d p g and_then_simps)
  with k x show ?thesis
    by simp
qed

section \<open>The range of label and probability\<close>

text \<open>
  Claim C2. For a bundle whose pickled objects keep their contract and a mapping with a
  value for every feature name, lines 171-183 return a label and a probability: the label
  is 0 or 1, the probability lies between 0 and 1, and both are what the classifier
  answered for the frame labelled with \<^verbatim>\<open>numeric_cols\<close>, the probability being the one
  at index 1 of the first row of \<^verbatim>\<open>predict_proba\<close>.
\<close>

theorem label_and_probability_in_range:
  assumes "transform_contract b" and "classifier_contract b"
    and "set (numeric_cols b) \<subseteq> set (keys values)"
  shows "\<exists>l q Xf ls P. predict_churn b values = Inr (l, q)
           \<and> (l = 0 \<or> l = 1) \<and> 0 \<le> q \<and> q \<le> 1
           \<and> columns Xf = numeric_cols b
           \<and> predict (model b) Xf = Inr ls \<and> get ls 0 = Inr l
           \<and> predict_proba (model b) Xf = Inr P \<and> and_then (get P 0) (\<lambda>p0. get p0 1) = Inr q"
proof -
  let ?n = "length (numeric_cols b)"
  let ?X = "\<lparr>columns = numeric_cols b, rows = [map (\<lambda>c. the (map_of values c)) (numeric_cols b)]\<rparr>"
  have X: "X_num (numeric_cols b) values = Inr ?X"
    by (rule X_num_present [OF assms(3)])
  have "columns ?X = numeric_cols b \<and> one_row (rows ?X) ?n"
    by (simp add: one_row_single)
  with assms(1) obtain Y where Y: "num_imputer b ?X = Inr Y" "one_row Y ?n"
    unfolding transform_contract_def by blast
  with assms(1) obtain Z where Z: "num_scaler b Y = Inr Z" "one_row Z ?n"
    unfolding transform_contract_def by blast
  let ?Xf = "\<lparr>columns = numeric_cols b, rows = Z\<rparr>"
  have Xf: "X_final b ?X = Inr ?Xf"
    by (simp add: X_final_def Y(1) Z(1) DataFrame_one_row [OF Z(2)])
  have "columns ?Xf = numeric_cols b \<and> one_row (rows ?Xf) ?n"
    using Z(2) by simp
  with assms(2) obtain l p0 p1
    where c: "predict (model b) ?Xf = Inr [l]" "l = 0 \<or> l = 1"
      "predict_proba (model b) ?Xf = Inr [[p0, p1]]" "0 \<le> p1" "p1 \<le> 1"
    unfolding classifier_contract_def by blast
  have "classify (model b) ?Xf = Inr (l, p1)"
    by (simp add: classify_def c(1,3) get_def)
  then have "predict_churn b values = Inr (l, p1)"
    by (simp add: predict_churn_def X Xf)
  moreover have "get [l] 0 = Inr l" "and_then (get [[p0, p1]] 0) (\<lambda>p0. get p0 1) = Inr p1"
    by (simp_all add: get_def)
  moreover have "columns ?Xf = numeric_cols b" by simp
  ultimately show ?thesis
    using c by blast
qed

theorem label_and_probability_in_range_witness:
  "transform_contract scenario_saved \<and> classifier_contract scenario_saved
   \<and> set (numeric_cols scenario_saved) \<subseteq> set (keys scenario_values)
   \<and> (\<exists>l q. predict_churn scenario_saved scenario_values = Inr (l, q)
          \<and> (l = 0 \<or> l = 1) \<and> 0 \<le> q \<and> q \<le> 1)"
proof -
  have t: "transform_contract scenario_saved"
    by (simp add: transform_contract_def scenario_saved_def)
  have c: "classifier_contract scenario_saved"
    unfolding classifier_contract_def
  proof (intro allI impI)
    fix X :: "real frame"
    have "predict (model scenario_saved) X = Inr [1] \<and> ((1::int) = 0 \<or> (1::int) = 1)
        \<and> predict_proba (model scenario_saved) X = Inr [[0.18, 0.82]]
        \<and> (0::real) \<le> 0.18 \<and> (0.18::real) \<le> 1 \<and> (0::real) \<le> 0.82 \<and> (0.82::real) \<le> 1"
      by (simp add: scenario_saved_def)
    then show "\<exists>l p0 p1. predict (model scenario_saved) X = Inr [l] \<and> (l = 0 \<or> l = 1)
        \<and> predict_proba (model scenario_saved) X = Inr [[p0, p1]]
        \<and> 0 \<le> p0 \<and> p0 \<le> 1 \<and> 0 \<le> p1 \<and> p1 \<le> 1"
      by blast
  qed
  have k: "set (numeric_cols scenario_saved) \<subseteq> set (keys scenario_values)"
    by (simp add: scenario_cols scenario_values_def keys_def)
  from label_and_probability_in_range [OF t c k] t c k show ?thesis
    by blast
qed

section \<open>Appending to the history\<close>

text \<open>
  Claim C3, as stated, fails: it speaks of every state of the history, and the file may
  exist without holding a table. On an empty file, which a write cut short by a full disk
  leaves behind, \<^verbatim>\<open>pd.read_csv\<close> raises \<^verbatim>\<open>EmptyDataError\<close> on line 192: the record of
  the scenario's second prediction is not appended, the file stays as it is, and reading
  the history raises as well.
\<close>

theorem append_to_empty_file_fails:
  "save_history second_row (scenario_store (Some (Other (Inl EmptyDataError))) Completes)
     = (Some EmptyDataError, scenario_store (Some (Other (Inl EmptyDataError))) Completes)
   \<and> read_all (scenario_store (Some (Other (Inl EmptyDataError))) Completes)
     = Inl EmptyDataError"
proof -
  let ?s = "scenario_store (Some (Other (Inl EmptyDataError))) Completes"
  have f: "history_file ?s \<noteq> None"
    by simp
  have r: "read_csv ?s = Inl EmptyDataError"
    by (simp add: read_csv_def)
  from save_history_unreadable [OF f r] read_all_unreadable [OF f r] show ?thesis
    by simp
qed

text \<open>
  Claim C3, amended. Take a history whose file is absent, or is read by \<^verbatim>\<open>pd.read_csv\<close>
  as a table with distinct column labels, full rows and the columns of the record \<open>r\<close>;
  let the write complete, and let \<^verbatim>\<open>pd.read_csv\<close> give the file that is written back as
  the table written. Then appending \<open>r\<close> (lines 191-197) raises nothing, and reading the
  history afterwards gives the rows read before, unchanged and in their places, followed
  by exactly one more row, which holds under every label the value \<open>r\<close> has for it. On
  a history without file that row is \<open>r\<close> itself.
\<close>

theorem append_adds_one_row:
  assumes "disk s = Completes"
    and "history_file s \<noteq> None \<longrightarrow>
           (\<exists>hist. read_csv s = Inr hist
              \<and> distinct (columns hist) \<and> set (columns hist) = set (keys r)
              \<and> (\<forall>cells\<in>set (rows hist). length cells = length (columns hist)))"
    and "\<forall>t. history_file (snd (save_history r s)) = Some (Written t) \<longrightarrow> reads_back s t = Inr t"
  shows "\<exists>s' old new. save_history r s = (None, s')
           \<and> read_all s = Inr old \<and> read_all s' = Inr (old @ [new])
           \<and> map_of new = map_of r
           \<and> (history_file s = None \<longrightarrow> new = r)"
proof (cases "history_file s")
  case None
  let ?t = "DataFrame_records r"
  let ?s' = "s\<lparr>history_file := Some (Written ?t)\<rparr>"
  have saved: "save_history r s = (None, ?s')"
    using None assms(1) by (rule save_history_new)
  with assms(3) have "reads_back s ?t = Inr ?t"
    by simp
  then have "read_csv ?s' = Inr ?t"
    by (simp add: read_csv_def)
  then have "read_all ?s' = Inr ([] @ [r])"
    by (simp add: read_all_Some DataFrame_records_def keys_def zip_map_fst_snd)
  moreover have "read_all s = Inr []"
    using None by (rule read_all_None)
  ultimately have "save_history r s = (None, ?s') \<and> read_all s = Inr []
      \<and> read_all ?s' = Inr ([] @ [r]) \<and> map_of r = map_of r
      \<and> (history_file s = None \<longrightarrow> r = r)"
    using saved by simp
  then show ?thesis
    by (intro exI)
next
  case (Some c)
  then have ex: "history_file s \<noteq> None"
    by simp
  with assms(2) obtain hist
    where hist: "read_csv s = Inr hist"
      and wf: "distinct (columns hist)" "set (columns hist) = set (keys r)"
        "\<forall>cells\<in>set (rows hist). length cells = length (columns hist)"
    by blast
  let ?cells = "reindex (keys r) (columns hist) (map snd r)"
  let ?hist' = "\<lparr>columns = columns hist, rows = rows hist @ [?cells]\<rparr>"
  let ?s' = "s\<lparr>history_file := Some (Written ?hist')\<rparr>"
  let ?new = "zip (columns hist) ?cells"
  have "concat_frames hist (DataFrame_records r) = ?hist'"
    using wf by (intro concat_same_columns) simp_all
  then have saved: "save_history r s = (None, ?s')"
    using save_history_existing [OF ex hist assms(1), of r] by simp
  with assms(3) have "reads_back s ?hist' = Inr ?hist'"
    by simp
  then have "read_csv ?s' = Inr ?hist'"
    by (simp add: read_csv_def)
  then have after: "read_all ?s' = Inr (map (zip (columns hist)) (rows hist) @ [?new])"
    by (simp add: read_all_Some)
  have before: "read_all s = Inr (map (zip (columns hist)) (rows hist))"
    using ex hist by (rule read_all_Some)
  have "map_of ?new = map_of r"
  proof
    fix k
    show "map_of ?new k = map_of r k"
      by (cases "map_of r k") (simp_all add: zip_reindex_row wf(2) keys_map_of)
  qed
  moreover have "history_file s = None \<longrightarrow> ?new = r"
    using Some by simp
  ultimately have "save_history r s = (None, ?s')
      \<and> read_all s = Inr (map (zip (columns hist)) (rows hist))
      \<and> read_all ?s' = Inr (map (zip (columns hist)) (rows hist) @ [?new])
      \<and> map_of ?new = map_of r \<and> (history_file s = None \<longrightarrow> ?new = r)"
    using saved before after by (intro conjI)
  then show ?thesis
    by (intro exI)
qed

theorem append_adds_one_row_witness:
  "disk (scenario_store (Some (Written scenario_history)) Completes) = Completes
   \<and> read_csv (scenario_store (Some (Written scenario_history)) Completes) = Inr scenario_history
   \<and> (\<exists>s' new.
         save_history second_row (scenario_store (Some (Written scenario_history)) Completes)
           = (None, s')
         \<and> read_all (scenario_store (Some (Written scenario_history)) Completes)
           = Inr [zip (columns scenario_history) (hd (rows scenario_history))]
         \<and> read_all s' = Inr ([zip (columns scenario_history) (hd (rows scenario_history))] @ [new])
         \<and> map_of new = map_of second_row)"
proof -
  let ?s = "scenario_store (Some (Written scenario_history)) Completes"
  have d: "disk ?s = Completes"
    by simp
  have c: "read_csv ?s = Inr scenario_history"
    by (simp add: read_csv_def as_written_def)
  have h: "history_file ?s \<noteq> None \<longrightarrow>
           (\<exists>hist. read_csv ?s = Inr hist
              \<and> distinct (columns hist) \<and> set (columns hist) = set (keys second_row)
              \<and> (\<forall>cells\<in>set (rows hist). length cells = length (columns hist)))"
    by (simp add: c) (simp add: scenario_history_def second_row_def keys_def)
  have b: "\<forall>t. history_file (snd (save_history second_row ?s)) = Some (Written t)
      \<longrightarrow> reads_back ?s t = Inr t"
    by (simp add: as_written_def)
  have o: "read_all ?s = Inr [zip (columns scenario_history) (hd (rows scenario_history))]"
    using read_all_Some [OF _ c] by (simp add: scenario_history_def)
  from append_adds_one_row [OF d h b] obtain s' old new
    where "save_history second_row ?s = (None, s')" "read_all ?s = Inr old"
      "read_all s' = Inr (old @ [new])" "map_of new = map_of second_row"
    by blast
  with o d c show ?thesis
    by auto
qed

section \<open>A failed transform or prediction\<close>

text \<open>
  Claim C4. When the button was clicked and the imputer's transform, the scaler's
  transform, the classifier's \<^verbatim>\<open>predict\<close> or its \<^verbatim>\<open>predict_proba\<close> raises, the run
  stops with that exception and the history file is what it was before the run.
\<close>

theorem failed_inference_persists_nothing:
  assumes "input_form (entered u) (numeric_cols b) [] = Inr values"
    and "button u"
    and "X_num (numeric_cols b) values = Inr X"
    and "num_imputer b X = Inl e
       \<or> (\<exists>Y. num_imputer b X = Inr Y \<and> num_scaler b Y = Inl e)
       \<or> (\<exists>Xf. X_final b X = Inr Xf \<and> predict (model b) Xf = Inl e)
       \<or> (\<exists>Xf l ls. X_final b X = Inr Xf \<and> predict (model b) Xf = Inr (l # ls)
             \<and> predict_proba (model b) Xf = Inl e)"
  shows "app b u s = (Inl e, s)"
proof -
  have "and_then (X_final b X) (classify (model b)) = Inl e"
    using assms(4)
  proof (elim disjE exE conjE)
    assume "num_imputer b X = Inl e"
    then show ?thesis by (simp add: X_final_def)
  next
    fix Y assume "num_imputer b X = Inr Y" "num_scaler b Y = Inl e"
    then show ?thesis by (simp add: X_final_def)
  next
    fix Xf assume "X_final b X = Inr Xf" "predict (model b) Xf = Inl e"
    then show ?thesis by (simp add: classify_def)
  next
    fix Xf l ls
    assume "X_final b X = Inr Xf" "predict (model b) Xf = Inr (l # ls)"
      "predict_proba (model b) Xf = Inl e"
    then show ?thesis by (simp add: classify_def get_Cons_0)
  qed
  then have "predict_churn b values = Inl e"
    by (simp add: predict_churn_unfold [OF assms(3)])
  with assms(1,2) show ?thesis by (rule app_inference_failed)
qed

theorem failed_inference_persists_nothing_witness:
  "app failing_scaler scenario_ui (scenario_store (Some (Written scenario_history)) Completes)
     = (Inl TransformError, scenario_store (Some (Written scenario_history)) Completes)"
proof -
  have "input_form (entered scenario_ui) (numeric_cols failing_scaler) [] = Inr scenario_values"
    by (simp only: failing_scaler_cols scenario_input_form)
  moreover have "button scenario_ui"
    by (simp add: scenario_ui_def)
  moreover have "X_num (numeric_cols failing_scaler) scenario_values = Inr scenario_X"
    by (simp only: failing_scaler_cols scenario_X_num)
  moreover have "\<exists>Y. num_imputer failing_scaler scenario_X = Inr Y
      \<and> num_scaler failing_scaler Y = Inl TransformError"
    by (simp add: failing_scaler_def scenario_saved_def)
  ultimately show ?thesis
    using failed_inference_persists_nothing
      [of scenario_ui failing_scaler scenario_values scenario_X TransformError]
    by blast
qed

section \<open>A failed write of the history\<close>

text \<open>
  Claim C5, as stated, fails: the write on line 197 is not guarded, so when it raises the
  run stops there and the prediction card of lines 203-229 is never rendered. In the
  scenario the classifier answers label 1 with probability 0.82, the file cannot be
  opened for writing, and the run ends with the exception instead of a page.
\<close>

theorem failed_write_hides_prediction:
  "predict_churn scenario_saved scenario_values = Inr (1, 0.82)
   \<and> app scenario_saved scenario_ui (scenario_store None Refuses)
       = (Inl OSError, scenario_store None Refuses)"
proof -
  let ?s = "scenario_store None Refuses"
  have r: "history_file ?s \<noteq> None \<longrightarrow> (\<exists>hist. read_csv ?s = Inr hist)"
    by simp
  have d: "disk ?s \<noteq> Completes"
    by simp
  from app_write_failed [OF scenario_clicked scenario_predict_churn r d]
  have "app scenario_saved scenario_ui ?s = (Inl OSError, ?s)"
    by simp
  with scenario_predict_churn show ?thesis by simp
qed

text \<open>
  Claim C5, amended. When the button was clicked, the classifier succeeded, the existing
  history (if any) was read, and the write of line 197 fails, be it that the file cannot
  be opened or that the write breaks off after the file was opened, then the run stops
  with the exception of the write (\<^verbatim>\<open>OSError\<close>): no page is rendered, so neither the
  prediction card nor the history table is shown. The file is left as it was when it
  could not be opened, and holds what the broken write left behind otherwise.
\<close>

theorem failed_write_stops_run:
  assumes "input_form (entered u) (numeric_cols b) [] = Inr values"
    and "button u"
    and "predict_churn b values = Inr (p, q)"
    and "history_file s \<noteq> None \<longrightarrow> (\<exists>hist. read_csv s = Inr hist)"
    and "disk s \<noteq> Completes"
  shows "app b u s =
     (Inl OSError,
      case disk s of
        Completes \<Rightarrow> s
      | Refuses \<Rightarrow> s
      | Cuts left \<Rightarrow> s\<lparr>history_file := Some (Other left)\<rparr>)"
  using assms by (rule app_write_failed)

theorem failed_write_stops_run_witness:
  "read_csv (scenario_store (Some (Written scenario_history)) (Cuts (Inl EmptyDataError)))
     = Inr scenario_history
   \<and> app scenario_saved scenario_ui
        (scenario_store (Some (Written scenario_history)) (Cuts (Inl EmptyDataError)))
     = (Inl OSError, scenario_store (Some (Other (Inl EmptyDataError))) (Cuts (Inl EmptyDataError)))"
proof -
  let ?s = "scenario_store (Some (Written scenario_history)) (Cuts (Inl EmptyDataError))"
  have c: "read_csv ?s = Inr scenario_history"
    by (simp add: read_csv_def as_written_def)
  then have r: "history_file ?s \<noteq> None \<longrightarrow> (\<exists>hist. read_csv ?s = Inr hist)"
    by simp
  have d: "disk ?s \<noteq> Completes"
    by simp
  from failed_write_stops_run [OF scenario_clicked scenario_predict_churn r d]
  have "app scenario_saved scenario_ui ?s
      = (Inl OSError, scenario_store (Some (Other (Inl EmptyDataError))) (Cuts (Inl EmptyDataError)))"
    by (simp add: scenario_store_def)
  with c show ?thesis by simp
qed

section \<open>Reading a history that does not exist\<close>

text \<open>
  Claim C6. When the history file does not exist, the history section raises nothing and
  has no row to show: it writes the notice that no prediction was made yet.
\<close>

theorem missing_store_reads_empty:
  assumes "history_file s = None"
  shows "history_section s = Inr NoPredictionsYet \<and> read_all s = Inr []
       \<and> render None s = Inr \<lparr>pred = None, proba = None, saved_info = False,
                                prediction_card = FillInDetails,
                                history = NoPredictionsYet\<rparr>"
  using path_exists_None [OF assms]
  by (simp add: history_section_def read_all_def render_def show_card_def)

theorem missing_store_reads_empty_witness:
  "history_file (scenario_store None Completes) = None
   \<and> read_all (scenario_store None Completes) = Inr []"
  using missing_store_reads_empty [of "scenario_store None Completes"]
  by simp

section \<open>The first prediction creates the history\<close>

text \<open>
  Claim C7, as stated, fails when a feature bears the name of one of the two result
  columns: line 188 then stores the label under the key the feature already has. With
  the single feature \<open>Prediction\<close> and the entry 5, the file created has the header
  \<open>Prediction, Churn_Probability\<close> and the row \<open>1, 0.82\<close>: the feature name is not
  followed by a second \<open>Prediction\<close> column and the value entered is lost.
\<close>

theorem feature_named_Prediction_overwritten:
  "app prediction_named types_five (scenario_store None Completes)
     = (Inr \<lparr>pred = Some 1, proba = Some 0.82, saved_info = True,
             prediction_card = LikelyChurn 0.82,
             history = Table \<lparr>columns = [''Prediction'', ''Churn_Probability''],
                               rows = [[Num 1, Num 0.82]]\<rparr>\<rparr>,
        scenario_store
          (Some (Written \<lparr>columns = [''Prediction'', ''Churn_Probability''],
                           rows = [[Num 1, Num 0.82]]\<rparr>))
          Completes)"
proof -
  let ?u = "types_five"
  let ?s = "scenario_store None Completes"
  let ?T = "\<lparr>columns = [''Prediction'', ''Churn_Probability''], rows = [[Num 1, Num 0.82]]\<rparr>"
  have c: "numeric_cols prediction_named = [''Prediction'']"
    by (simp add: prediction_named_def)
  have "input_form (entered ?u) [''Prediction''] [] = Inr [(''Prediction'', 5)]"
    by (simp add: types_five_def field_def number_input_def keys_def)
  then have i: "input_form (entered ?u) (numeric_cols prediction_named) [] = Inr [(''Prediction'', 5)]"
    by (simp only: c)
  have b: "button ?u" by (simp add: types_five_def)
  have "X_num [''Prediction''] [(''Prediction'', 5)] = Inr \<lparr>columns = [''Prediction''], rows = [[5]]\<rparr>"
    by (simp add: X_num_def DataFrame_def)
  moreover have "X_final prediction_named \<lparr>columns = [''Prediction''], rows = [[5]]\<rparr>
      = Inr \<lparr>columns = [''Prediction''], rows = [[5]]\<rparr>"
    by (simp add: X_final_def prediction_named_def scenario_saved_def DataFrame_def)
  moreover have "classify (model prediction_named) \<lparr>columns = [''Prediction''], rows = [[5]]\<rparr>
      = Inr (1, 0.82)"
    by (simp add: classify_def prediction_named_def scenario_saved_def get_def)
  ultimately have p: "predict_churn prediction_named [(''Prediction'', 5)] = Inr (1, 0.82)"
    by (simp add: predict_churn_def c)
  have r: "history_row [(''Prediction'', 5)] 1 0.82
      = [(''Prediction'', Num 1), (''Churn_Probability'', Num 0.82)]"
    by (simp add: history_row_def)
  have "DataFrame_records [(''Prediction'', Num 1), (''Churn_Probability'', Num 0.82)] = ?T"
    by (simp add: DataFrame_records_def keys_def)
  with save_history_new [of ?s "[(''Prediction'', Num 1), (''Churn_Probability'', Num 0.82)]"]
  have s: "save_history (history_row [(''Prediction'', 5)] 1 0.82) ?s
      = (None, ?s\<lparr>history_file := Some (Written ?T)\<rparr>)"
    unfolding r by simp
  have e: "?s\<lparr>history_file := Some (Written ?T)\<rparr> = scenario_store (Some (Written ?T)) Completes"
    by (simp add: scenario_store_def)
  have "read_csv (scenario_store (Some (Written ?T)) Completes) = Inr ?T"
    by (simp add: read_csv_def as_written_def)
  then have "render (Some (1, 0.82)) (scenario_store (Some (Written ?T)) Completes)
      = Inr \<lparr>pred = Some 1, proba = Some 0.82, saved_info = True,
             prediction_card = LikelyChurn 0.82, history = Table ?T\<rparr>"
    by (simp add: render_Some show_card_def)
  with app_saved [OF i b p s] show ?thesis
    by (simp only: e)
qed

text \<open>
  Claim C7, amended. When no feature is named \<open>Prediction\<close> or \<open>Churn_Probability\<close>,
  the history file is absent and the write completes, a clicked run whose classifier
  succeeds creates the file with what \<^verbatim>\<open>to_csv\<close> writes for this table: the header is the
  feature names in \<^verbatim>\<open>numeric_cols\<close> order followed by \<open>Prediction\<close> and
  \<open>Churn_Probability\<close>, and there is exactly one row, holding the values of the input
  fields in that order followed by the label and the probability. The run then goes on to
  render the page from the file it has created.
\<close>

theorem first_prediction_creates_history:
  assumes "input_form (entered u) (numeric_cols b) [] = Inr values"
    and "button u"
    and "predict_churn b values = Inr (p, q)"
    and "history_file s = None" and "disk s = Completes"
    and "''Prediction'' \<notin> set (numeric_cols b)"
    and "''Churn_Probability'' \<notin> set (numeric_cols b)"
  shows "\<exists>created. columns created = numeric_cols b @ [''Prediction'', ''Churn_Probability'']
           \<and> rows created =
                [map (\<lambda>c. Num (field (entered u) c)) (numeric_cols b) @ [Num (of_int p), Num q]]
           \<and> snd (app b u s) = s\<lparr>history_file := Some (Written created)\<rparr>
           \<and> fst (app b u s) = render (Some (p, q)) (s\<lparr>history_file := Some (Written created)\<rparr>)"
proof -
  let ?cols = "numeric_cols b"
  let ?H = "\<lparr>columns = ?cols @ [''Prediction'', ''Churn_Probability''],
             rows = [map (\<lambda>c. Num (field (entered u) c)) ?cols @ [Num (of_int p), Num q]]\<rparr>"
  from assms(1) have v: "values = map (\<lambda>c. (c, field (entered u) c)) ?cols"
    by (simp add: input_form_values)
  then have k: "keys values = ?cols"
    by (simp add: keys_graph)
  have "history_row values p q =
      map (\<lambda>(k, v). (k, Num v)) values @ [(''Prediction'', Num (of_int p)), (''Churn_Probability'', Num q)]"
    using assms(6,7) by (intro history_row_fresh) (simp_all add: k)
  then have "DataFrame_records (history_row values p q) = ?H"
    by (simp add: DataFrame_records_def keys_def v comp_def)
  then have s: "save_history (history_row values p q) s = (None, s\<lparr>history_file := Some (Written ?H)\<rparr>)"
    using save_history_new [OF assms(4,5), of "history_row values p q"] by simp
  from app_saved [OF assms(1,2,3) s]
  have "columns ?H = ?cols @ [''Prediction'', ''Churn_Probability'']
      \<and> rows ?H = [map (\<lambda>c. Num (field (entered u) c)) ?cols @ [Num (of_int p), Num q]]
      \<and> snd (app b u s) = s\<lparr>history_file := Some (Written ?H)\<rparr>
      \<and> fst (app b u s) = render (Some (p, q)) (s\<lparr>history_file := Some (Written ?H)\<rparr>)"
    by simp
  then show ?thesis
    by (intro exI)
qed

theorem first_prediction_creates_history_witness:
  "history_file (scenario_store None Completes) = None
   \<and> disk (scenario_store None Completes) = Completes
   \<and> ''Prediction'' \<notin> set (numeric_cols scenario_saved)
   \<and> ''Churn_Probability'' \<notin> set (numeric_cols scenario_saved)
   \<and> snd (app scenario_saved scenario_ui (scenario_store None Completes))
       = scenario_store (Some (Written scenario_history)) Completes"
proof -
  let ?s = "scenario_store None Completes"
  have h: "history_file ?s = None" "disk ?s = Completes"
    by simp_all
  have n: "''Prediction'' \<notin> set (numeric_cols scenario_saved)"
    "''Churn_Probability'' \<notin> set (numeric_cols scenario_saved)"
    by (simp_all add: scenario_cols)
  from first_prediction_creates_history [OF scenario_clicked scenario_predict_churn h n]
  obtain created
    where c: "columns created = numeric_cols scenario_saved @ [''Prediction'', ''Churn_Probability'']"
      and r: "rows created =
          [map (\<lambda>c. Num (field (entered scenario_ui) c)) (numeric_cols scenario_saved)
             @ [Num (of_int 1), Num 0.82]]"
      and a: "snd (app scenario_saved scenario_ui ?s) = ?s\<lparr>history_file := Some (Written created)\<rparr>"
    by blast
  have "map (\<lambda>c. Num (field (entered scenario_ui) c)) (numeric_cols scenario_saved)
      = [Num 45, Num 2, Num 1]"
    by (simp add: scenario_cols scenario_ui_def field_def number_input_def)
  with c r have "created = scenario_history"
    by (cases created) (simp add: scenario_history_def scenario_cols)
  with a have "snd (app scenario_saved scenario_ui ?s)
      = scenario_store (Some (Written scenario_history)) Completes"
    by (simp add: scenario_store_def)
  with h n show ?thesis
    by simp
qed

section \<open>A missing feature\<close>

text \<open>
  Claim C8. When the mapping of entered values lacks a value for some name of the column
  list, building the feature vector fails: line 171 raises \<^verbatim>\<open>KeyError\<close> carrying the
  first name of the list that the mapping lacks, and nothing of the pipeline runs after it.
\<close>

theorem missing_feature_raises_KeyError:
  assumes "\<not> set cols \<subseteq> set (keys values)"
  shows "\<exists>m. List.find (\<lambda>c. c \<notin> set (keys values)) cols = Some m
           \<and> m \<in> set cols \<and> m \<notin> set (keys values)
           \<and> X_num cols values = Inl (KeyError m)
           \<and> (cols = numeric_cols b \<longrightarrow> predict_churn b values = Inl (KeyError m))"
proof -
  from lookup_all_missing [OF assms] obtain m
    where f: "List.find (\<lambda>c. c \<notin> set (keys values)) cols = Some m"
      and l: "lookup_all values cols = Inl (KeyError m)"
    by blast
  from f have "m \<in> set cols" "m \<notin> set (keys values)"
    by (auto simp: find_Some_iff)
  moreover from l have x: "X_num cols values = Inl (KeyError m)"
    by (simp add: X_num_def)
  moreover have "cols = numeric_cols b \<longrightarrow> predict_churn b values = Inl (KeyError m)"
  proof
    assume "cols = numeric_cols b"
    with x have "X_num (numeric_cols b) values = Inl (KeyError m)" by simp
    then show "predict_churn b values = Inl (KeyError m)"
      by (simp add: predict_churn_def)
  qed
  ultimately show ?thesis using f by blast
qed

theorem missing_feature_raises_KeyError_witness:
  "\<not> set [''Age'', ''Tenure'', ''Usage''] \<subseteq> set (keys [(''Age'', 45 :: real), (''Usage'', 1)])
   \<and> X_num [''Age'', ''Tenure'', ''Usage''] [(''Age'', 45), (''Usage'', 1)] = Inl (KeyError ''Tenure'')"
  using missing_feature_raises_KeyError
    [of "[''Age'', ''Tenure'', ''Usage'']" "[(''Age'', 45), (''Usage'', 1)]" scenario_saved]
  by (simp add: keys_def)

section \<open>The values of the fields\<close>

text \<open>
  Claim C9, as stated, fails: a feature whose name holds none of the seven keywords gets
  its field from the last branch (line 161), which sets no minimum. With the single
  feature \<open>Income\<close> and the entry -5 the form stores -5 and the feature vector holds it.
\<close>

theorem negative_value_accepted:
  "input_form (entered types_minus_five) [''Income''] [] = Inr [(''Income'', - 5)]
   \<and> X_num [''Income''] [(''Income'', - 5)] = Inr \<lparr>columns = [''Income''], rows = [[- 5]]\<rparr>"
  by (simp add: types_minus_five_def field_def number_input_def keys_def X_num_def DataFrame_def)

text \<open>
  Claim C9, amended. The field of a feature whose name contains one of \<open>Age\<close>,
  \<open>Tenure\<close>, \<open>Usage\<close>, \<open>Support\<close>, \<open>Delay\<close>, \<open>Spend\<close>, \<open>Interaction\<close> has the
  minimum 0, so the value assembled for it is not negative; the field of any other
  feature has no minimum and hands on whatever number was entered. The feature vector
  holds, in column order, the values of the fields.
\<close>

theorem keyword_fields_nonnegative:
  assumes "input_form ent cols [] = Inr values"
  shows "X_num cols values = Inr \<lparr>columns = cols, rows = [map (field ent) cols]\<rparr>
       \<and> (\<forall>i<length cols. has_min_value (cols ! i) \<longrightarrow> 0 \<le> map (field ent) cols ! i)
       \<and> (\<forall>i<length cols. \<forall>v. \<not> has_min_value (cols ! i) \<and> ent (cols ! i) = Some v
             \<longrightarrow> map (field ent) cols ! i = v)"
  using X_num_input_form [OF assms] by (simp add: field_nonneg field_no_min)

theorem keyword_fields_nonnegative_witness:
  "input_form (entered types_minus_five) [''Age'', ''Income''] []
     = Inr [(''Age'', 30), (''Income'', - 5)]
   \<and> X_num [''Age'', ''Income''] [(''Age'', 30), (''Income'', - 5)]
       = Inr \<lparr>columns = [''Age'', ''Income''], rows = [[30, - 5]]\<rparr>"
proof -
  have i: "input_form (entered types_minus_five) [''Age'', ''Income''] []
      = Inr [(''Age'', 30), (''Income'', - 5)]"
    by (simp add: types_minus_five_def field_def number_input_def keys_def)
  have f: "map (field (entered types_minus_five)) [''Age'', ''Income''] = [30, - 5]"
    by (simp add: types_minus_five_def field_def number_input_def)
  from keyword_fields_nonnegative [OF i] i show ?thesis
    by (simp only: f simp_thms)
qed

end
